theory Spec2Isabelle
  imports Complex_Main
begin

section \<open>JavaScript values used by the model\<close>

text \<open>
  JSON values, as \<open>Record<string, any>\<close>, tool-call arguments and structured output carry
  them. An object is an association list: key order is what \<open>JSON.stringify\<close> prints.
  Numbers are the integers; fractional numbers are outside the model.
\<close>

datatype json =
  JNull
| JBool bool
| JNumber int
| JString string
| JArray "json list"
| JObject "(string \<times> json) list"

text \<open>
  \<open>a || b\<close> on a string: the empty string is falsy. \<open>a || 0\<close> on a number that may
  be \<open>undefined\<close>: \<open>undefined\<close> and \<open>0\<close> are falsy.
\<close>

definition or_string :: "string \<Rightarrow> string \<Rightarrow> string" where
  "or_string a b = (if a = [] then b else a)"

definition or_zero :: "int option \<Rightarrow> int" where
  "or_zero a = (case a of None \<Rightarrow> 0 | Some n \<Rightarrow> (if n = 0 then 0 else n))"

text \<open>\<open>Array.prototype.join\<close> on an array of strings.\<close>

fun join :: "string \<Rightarrow> string list \<Rightarrow> string" where
  "join sep [] = []"
| "join sep [x] = x"
| "join sep (x # y # ys) = x @ sep @ join sep (y # ys)"

text \<open>
  The decimal text of an integer, as a template literal prints a number: the digits, most
  significant first, after a minus sign when the number is negative. (JavaScript prints
  integers of 22 digits or more with an exponent; they are outside the model.)
\<close>

definition digit_char :: "nat \<Rightarrow> char" where
  "digit_char d = char_of (48 + d)"

function nat_toString :: "nat \<Rightarrow> string" where
  "nat_toString n =
     (if n < 10 then [digit_char n] else nat_toString (n div 10) @ [digit_char (n mod 10)])"
  by pat_completeness auto
termination
  by (relation "measure (\<lambda>n. n)") auto

definition Number_toString :: "int \<Rightarrow> string" where
  "Number_toString n =
     (if n < 0 then CHR ''-'' # nat_toString (nat (- n)) else nat_toString (nat n))"

section \<open>The unified data model (packages/ai/src/types.ts)\<close>

text \<open>
  Field names are those of the interfaces, prefixed by the initials of the interface
  (\<open>cco_model\<close> is \<open>ChatCompletionOptions.model\<close>), since many interfaces share
  \<open>model\<close>, \<open>id\<close> and \<open>usage\<close>. An optional field \<open>f?: T\<close> is a \<open>T option\<close>.
\<close>

datatype Role = System | User | Assistant

record Message =
  msg_role :: Role
  msg_content :: string
  msg_name :: "string option"

record ChatCompletionOptions =
  cco_model :: string
  cco_messages :: "Message list"
  cco_temperature :: "real option"
  cco_maxTokens :: "int option"
  cco_topP :: "real option"
  cco_frequencyPenalty :: "real option"
  cco_presencePenalty :: "real option"
  cco_stopSequences :: "string list option"
  cco_stream :: "bool option"
  cco_metadata :: "(string \<times> json) list option"

record Usage =
  promptTokens :: int
  completionTokens :: int
  totalTokens :: int

record ChatCompletionChunk =
  ccc_id :: string
  ccc_model :: string
  ccc_content :: string
  ccc_role :: "string option"
  ccc_finishReason :: "string option"
  ccc_usage :: "Usage option"

record ChatCompletionResult =
  ccr_id :: string
  ccr_model :: string
  ccr_content :: string
  ccr_role :: Role
  ccr_finishReason :: "string option"
  ccr_usage :: Usage

record TextGenerationOptions =
  tgo_model :: string
  tgo_prompt :: string
  tgo_maxTokens :: "int option"
  tgo_temperature :: "real option"
  tgo_topP :: "real option"
  tgo_frequencyPenalty :: "real option"
  tgo_presencePenalty :: "real option"
  tgo_stopSequences :: "string list option"
  tgo_stream :: "bool option"

record TextGenerationResult =
  tgr_id :: string
  tgr_model :: string
  tgr_text :: string
  tgr_finishReason :: "string option"
  tgr_usage :: Usage

datatype SummaryStyle = BulletPoints | Paragraph | Concise

record SummarizationOptions =
  so_model :: string
  so_text :: string
  so_maxLength :: "int option"
  so_style :: "SummaryStyle option"
  so_focus :: "string list option"

record SummarizationResult =
  sr_id :: string
  sr_model :: string
  sr_summary :: string
  sr_usage :: Usage

datatype EmbeddingInput = Single string | Many "string list"

record EmbeddingOptions =
  eo_model :: string
  eo_input :: EmbeddingInput
  eo_dimensions :: "int option"

record EmbeddingUsage =
  eu_promptTokens :: int
  eu_totalTokens :: int

record EmbeddingResult =
  er_id :: string
  er_model :: string
  er_embeddings :: "real list list"
  er_usage :: EmbeddingUsage

text \<open>
  The interface \<open>AIAdapter\<close>: a name and six operations. What an operation returns (a
  promise, an asynchronous iterable) is a type parameter, one per operation.
\<close>

record ('c, 'cs, 't, 'ts, 's, 'e) AIAdapter =
  name :: string
  chatCompletion :: "ChatCompletionOptions \<Rightarrow> 'c"
  chatCompletionStream :: "ChatCompletionOptions \<Rightarrow> 'cs"
  generateText :: "TextGenerationOptions \<Rightarrow> 't"
  generateTextStream :: "TextGenerationOptions \<Rightarrow> 'ts"
  summarize :: "SummarizationOptions \<Rightarrow> 's"
  createEmbeddings :: "EmbeddingOptions \<Rightarrow> 'e"

section \<open>The facade (packages/ai/src/ai.ts)\<close>

text \<open>
  The class \<open>AI\<close> has one private field, the adapter. \<open>setAdapter\<close> assigns it; the model
  returns the updated object.
\<close>

record ('c, 'cs, 't, 'ts, 's, 'e) AI =
  adapter :: "('c, 'cs, 't, 'ts, 's, 'e) AIAdapter"

definition AI_new :: "('c, 'cs, 't, 'ts, 's, 'e) AIAdapter \<Rightarrow> ('c, 'cs, 't, 'ts, 's, 'e) AI" where
  "AI_new a = \<lparr>adapter = a\<rparr>"

definition adapterName :: "('c, 'cs, 't, 'ts, 's, 'e) AI \<Rightarrow> string" where
  "adapterName this = name (adapter this)"

definition chat :: "('c, 'cs, 't, 'ts, 's, 'e) AI \<Rightarrow> ChatCompletionOptions \<Rightarrow> 'c" where
  "chat this options = chatCompletion (adapter this) options"

definition chatStream :: "('c, 'cs, 't, 'ts, 's, 'e) AI \<Rightarrow> ChatCompletionOptions \<Rightarrow> 'cs" where
  "chatStream this options =
     chatCompletionStream (adapter this) (options\<lparr>cco_stream := Some True\<rparr>)"

definition AI_generateText :: "('c, 'cs, 't, 'ts, 's, 'e) AI \<Rightarrow> TextGenerationOptions \<Rightarrow> 't" where
  "AI_generateText this options = generateText (adapter this) options"

definition AI_generateTextStream ::
  "('c, 'cs, 't, 'ts, 's, 'e) AI \<Rightarrow> TextGenerationOptions \<Rightarrow> 'ts" where
  "AI_generateTextStream this options =
     generateTextStream (adapter this) (options\<lparr>tgo_stream := Some True\<rparr>)"

definition AI_summarize :: "('c, 'cs, 't, 'ts, 's, 'e) AI \<Rightarrow> SummarizationOptions \<Rightarrow> 's" where
  "AI_summarize this options = summarize (adapter this) options"

definition embed :: "('c, 'cs, 't, 'ts, 's, 'e) AI \<Rightarrow> EmbeddingOptions \<Rightarrow> 'e" where
  "embed this options = createEmbeddings (adapter this) options"

definition setAdapter ::
  "('c, 'cs, 't, 'ts, 's, 'e) AI \<Rightarrow> ('c, 'cs, 't, 'ts, 's, 'e) AIAdapter \<Rightarrow> ('c, 'cs, 't, 'ts, 's, 'e) AI" where
  "setAdapter this a = this\<lparr>adapter := a\<rparr>"

section \<open>The provider client, as the OpenAI adapter uses it\<close>

text \<open>
  The \<open>openai\<close> package is a library the adapter calls; the records below hold the
  fields of its requests and responses that \<open>openai-adapter.ts\<close> writes or reads. A field
  the adapter leaves out of a request (or sets to \<open>undefined\<close>) is \<open>None\<close>.
\<close>

record wire_message =
  wm_role :: Role
  wm_content :: string
  wm_name :: "string option"

record chat_request =
  rq_model :: string
  rq_messages :: "wire_message list"
  rq_temperature :: "real option"
  rq_max_tokens :: "int option"
  rq_top_p :: "real option"
  rq_frequency_penalty :: "real option"
  rq_presence_penalty :: "real option"
  rq_stop :: "string list option"
  rq_stream :: bool

record text_request =
  tq_model :: string
  tq_prompt :: string
  tq_max_tokens :: "int option"
  tq_temperature :: "real option"
  tq_top_p :: "real option"
  tq_frequency_penalty :: "real option"
  tq_presence_penalty :: "real option"
  tq_stop :: "string list option"
  tq_stream :: bool

record embedding_request =
  eq_model :: string
  eq_input :: EmbeddingInput
  eq_dimensions :: "int option"

record wire_usage =
  prompt_tokens :: int
  completion_tokens :: int
  total_tokens :: int

record chat_message =
  cm_content :: "string option"

record chat_choice =
  ch_message :: chat_message
  ch_finish_reason :: "string option"

record chat_completion =
  cc_id :: string
  cc_model :: string
  cc_choices :: "chat_choice list"
  cc_usage :: "wire_usage option"

record chunk_delta =
  dl_content :: "string option"
  dl_role :: "string option"

record chunk_choice =
  cd_delta :: chunk_delta
  cd_finish_reason :: "string option"

record chat_chunk =
  ck_id :: string
  ck_model :: string
  ck_choices :: "chunk_choice list"
  ck_usage :: "wire_usage option"

record text_choice =
  tx_text :: string
  tx_finish_reason :: "string option"

record text_completion =
  tc_id :: string
  tc_model :: string
  tc_choices :: "text_choice list"
  tc_usage :: "wire_usage option"

record embedding_datum =
  embedding :: "real list"

record embedding_usage =
  emu_prompt_tokens :: int
  emu_total_tokens :: int

record embedding_response =
  em_data :: "embedding_datum list"
  em_model :: string
  em_usage :: embedding_usage

text \<open>
  Errors an operation can end with: the client's promise rejects (the error is passed on
  as it is), or the adapter reads a property of \<open>undefined\<close> (\<open>response.choices[0]\<close> of
  an empty array), which is a \<open>TypeError\<close>.
\<close>

datatype error = ProviderTransportError string | TypeError

text \<open>
  The client: \<open>create\<close> of \<open>chat.completions\<close>, \<open>completions\<close> and \<open>embeddings\<close>.
  With \<open>stream: true\<close> the first two resolve to an asynchronous iterable, which the model
  takes as the finite list of the chunks it delivers; that is a second function here, since
  the type of the result differs.
\<close>

record client =
  chat_create :: "chat_request \<Rightarrow> error + chat_completion"
  chat_create_stream :: "chat_request \<Rightarrow> error + chat_chunk list"
  completions_create :: "text_request \<Rightarrow> error + text_completion"
  completions_create_stream :: "text_request \<Rightarrow> error + text_completion list"
  embeddings_create :: "embedding_request \<Rightarrow> error + embedding_response"

text \<open>An outbound request, as the log of an operation records it.\<close>

datatype outbound =
  ChatCompletionsCreate chat_request
| CompletionsCreate text_request
| EmbeddingsCreate embedding_request

section \<open>The OpenAI adapter (packages/ai-openai/src/openai-adapter.ts)\<close>

text \<open>
  Every operation returns the requests it issued, in order, and its result or its error.
  The result of a streaming operation is the list of what its generator yields when it is
  consumed to the end.
\<close>

definition to_wire_message :: "Message \<Rightarrow> wire_message" where
  "to_wire_message msg =
     \<lparr>wm_role = msg_role msg, wm_content = msg_content msg, wm_name = msg_name msg\<rparr>"

definition chat_payload :: "ChatCompletionOptions \<Rightarrow> bool \<Rightarrow> chat_request" where
  "chat_payload options streaming =
     \<lparr>rq_model = or_string (cco_model options) ''gpt-3.5-turbo'',
      rq_messages = map to_wire_message (cco_messages options),
      rq_temperature = cco_temperature options,
      rq_max_tokens = cco_maxTokens options,
      rq_top_p = cco_topP options,
      rq_frequency_penalty = cco_frequencyPenalty options,
      rq_presence_penalty = cco_presencePenalty options,
      rq_stop = cco_stopSequences options,
      rq_stream = streaming\<rparr>"

definition usage_of :: "wire_usage option \<Rightarrow> Usage" where
  "usage_of u =
     \<lparr>promptTokens = or_zero (map_option prompt_tokens u),
      completionTokens = or_zero (map_option completion_tokens u),
      totalTokens = or_zero (map_option total_tokens u)\<rparr>"

definition OpenAIAdapter_chatCompletion ::
  "client \<Rightarrow> ChatCompletionOptions \<Rightarrow> outbound list \<times> (error + ChatCompletionResult)" where
  "OpenAIAdapter_chatCompletion cl options =
     (let request = chat_payload options False in
      ([ChatCompletionsCreate request],
       case chat_create cl request of
         Inl e \<Rightarrow> Inl e
       | Inr response \<Rightarrow>
           (case cc_choices response of
              [] \<Rightarrow> Inl TypeError
            | choice # _ \<Rightarrow>
                Inr \<lparr>ccr_id = cc_id response,
                     ccr_model = cc_model response,
                     ccr_content =
                       (case cm_content (ch_message choice) of
                          None \<Rightarrow> [] | Some c \<Rightarrow> or_string c []),
                     ccr_role = Assistant,
                     ccr_finishReason = ch_finish_reason choice,
                     ccr_usage = usage_of (cc_usage response)\<rparr>)))"

text \<open>
  The body of the \<open>for await\<close> loop of \<open>chatCompletionStream\<close>, for one chunk of the
  provider: a chunk is yielded when the first choice exists and its delta has a truthy
  (present, non-empty) \<open>content\<close>. The yielded object has no \<open>usage\<close>.
\<close>

definition chat_chunk_yield :: "chat_chunk \<Rightarrow> ChatCompletionChunk option" where
  "chat_chunk_yield chunk =
     (case ck_choices chunk of
        [] \<Rightarrow> None
      | choice # _ \<Rightarrow>
          (case dl_content (cd_delta choice) of
             None \<Rightarrow> None
           | Some c \<Rightarrow>
               if c = [] then None
               else Some \<lparr>ccc_id = ck_id chunk,
                          ccc_model = ck_model chunk,
                          ccc_content = c,
                          ccc_role = dl_role (cd_delta choice),
                          ccc_finishReason = cd_finish_reason choice,
                          ccc_usage = None\<rparr>))"

definition OpenAIAdapter_chatCompletionStream ::
  "client \<Rightarrow> ChatCompletionOptions \<Rightarrow> outbound list \<times> (error + ChatCompletionChunk list)" where
  "OpenAIAdapter_chatCompletionStream cl options =
     (let request = chat_payload options True in
      ([ChatCompletionsCreate request],
       case chat_create_stream cl request of
         Inl e \<Rightarrow> Inl e
       | Inr stream \<Rightarrow> Inr (List.map_filter chat_chunk_yield stream)))"

definition text_payload :: "TextGenerationOptions \<Rightarrow> bool \<Rightarrow> text_request" where
  "text_payload options streaming =
     \<lparr>tq_model = or_string (tgo_model options) ''gpt-3.5-turbo-instruct'',
      tq_prompt = tgo_prompt options,
      tq_max_tokens = tgo_maxTokens options,
      tq_temperature = tgo_temperature options,
      tq_top_p = tgo_topP options,
      tq_frequency_penalty = tgo_frequencyPenalty options,
      tq_presence_penalty = tgo_presencePenalty options,
      tq_stop = tgo_stopSequences options,
      tq_stream = streaming\<rparr>"

definition OpenAIAdapter_generateText ::
  "client \<Rightarrow> TextGenerationOptions \<Rightarrow> outbound list \<times> (error + TextGenerationResult)" where
  "OpenAIAdapter_generateText cl options =
     (let request = text_payload options False in
      ([CompletionsCreate request],
       case completions_create cl request of
         Inl e \<Rightarrow> Inl e
       | Inr response \<Rightarrow>
           (case tc_choices response of
              [] \<Rightarrow> Inl TypeError
            | choice # _ \<Rightarrow>
                Inr \<lparr>tgr_id = tc_id response,
                     tgr_model = tc_model response,
                     tgr_text = tx_text choice,
                     tgr_finishReason = tx_finish_reason choice,
                     tgr_usage = usage_of (tc_usage response)\<rparr>)))"

definition text_chunk_yield :: "text_completion \<Rightarrow> string option" where
  "text_chunk_yield chunk =
     (case tc_choices chunk of
        [] \<Rightarrow> None
      | choice # _ \<Rightarrow> if tx_text choice = [] then None else Some (tx_text choice))"

definition OpenAIAdapter_generateTextStream ::
  "client \<Rightarrow> TextGenerationOptions \<Rightarrow> outbound list \<times> (error + string list)" where
  "OpenAIAdapter_generateTextStream cl options =
     (let request = text_payload options True in
      ([CompletionsCreate request],
       case completions_create_stream cl request of
         Inl e \<Rightarrow> Inl e
       | Inr stream \<Rightarrow> Inr (List.map_filter text_chunk_yield stream)))"

definition buildSummarizationPrompt :: "SummarizationOptions \<Rightarrow> string" where
  "buildSummarizationPrompt options =
     (let prompt0 = ''You are a professional summarizer. '';
          prompt1 = prompt0 @
            (case so_style options of
               Some BulletPoints \<Rightarrow> ''Provide a summary in bullet point format. ''
             | Some Paragraph \<Rightarrow> ''Provide a summary in paragraph format. ''
             | Some Concise \<Rightarrow> ''Provide a very concise summary in 1-2 sentences. ''
             | None \<Rightarrow> ''Provide a clear and concise summary. '');
          prompt2 =
            (case so_focus options of
               None \<Rightarrow> prompt1
             | Some focus \<Rightarrow>
                 if length focus > 0
                 then prompt1 @ ''Focus on the following aspects: '' @ join '', '' focus @ ''. ''
                 else prompt1);
          prompt3 =
            (case so_maxLength options of
               None \<Rightarrow> prompt2
             | Some n \<Rightarrow>
                 if n \<noteq> 0
                 then prompt2 @ ''Keep the summary under '' @ Number_toString n @ '' tokens. ''
                 else prompt2)
      in prompt3)"

definition summarize_payload :: "SummarizationOptions \<Rightarrow> chat_request" where
  "summarize_payload options =
     \<lparr>rq_model = or_string (so_model options) ''gpt-3.5-turbo'',
      rq_messages =
        [\<lparr>wm_role = System, wm_content = buildSummarizationPrompt options, wm_name = None\<rparr>,
         \<lparr>wm_role = User, wm_content = so_text options, wm_name = None\<rparr>],
      rq_temperature = Some (3 / 10),
      rq_max_tokens = so_maxLength options,
      rq_top_p = None,
      rq_frequency_penalty = None,
      rq_presence_penalty = None,
      rq_stop = None,
      rq_stream = False\<rparr>"

definition OpenAIAdapter_summarize ::
  "client \<Rightarrow> SummarizationOptions \<Rightarrow> outbound list \<times> (error + SummarizationResult)" where
  "OpenAIAdapter_summarize cl options =
     (let request = summarize_payload options in
      ([ChatCompletionsCreate request],
       case chat_create cl request of
         Inl e \<Rightarrow> Inl e
       | Inr response \<Rightarrow>
           (case cc_choices response of
              [] \<Rightarrow> Inl TypeError
            | choice # _ \<Rightarrow>
                Inr \<lparr>sr_id = cc_id response,
                     sr_model = cc_model response,
                     sr_summary =
                       (case cm_content (ch_message choice) of
                          None \<Rightarrow> [] | Some c \<Rightarrow> or_string c []),
                     sr_usage = usage_of (cc_usage response)\<rparr>)))"

text \<open>
  \<open>generateId\<close> belongs to \<open>BaseAdapter\<close>, whose source is not part of these files; the
  identifier it returns is the parameter \<open>generated_id\<close>.
\<close>

definition OpenAIAdapter_createEmbeddings ::
  "client \<Rightarrow> string \<Rightarrow> EmbeddingOptions \<Rightarrow> outbound list \<times> (error + EmbeddingResult)" where
  "OpenAIAdapter_createEmbeddings cl generated_id options =
     (let request =
        \<lparr>eq_model = or_string (eo_model options) ''text-embedding-ada-002'',
         eq_input = eo_input options,
         eq_dimensions = eo_dimensions options\<rparr>
      in
      ([EmbeddingsCreate request],
       case embeddings_create cl request of
         Inl e \<Rightarrow> Inl e
       | Inr response \<Rightarrow>
           Inr \<lparr>er_id = generated_id,
                er_model = em_model response,
                er_embeddings = map embedding (em_data response),
                er_usage =
                  \<lparr>eu_promptTokens = emu_prompt_tokens (em_usage response),
                   eu_totalTokens = emu_total_tokens (em_usage response)\<rparr>\<rparr>))"

text \<open>The class as an \<open>AIAdapter\<close>: \<open>name = "openai"\<close> and the six methods.\<close>

definition OpenAIAdapter :: "client \<Rightarrow> string \<Rightarrow>
    (outbound list \<times> (error + ChatCompletionResult),
     outbound list \<times> (error + ChatCompletionChunk list),
     outbound list \<times> (error + TextGenerationResult),
     outbound list \<times> (error + string list),
     outbound list \<times> (error + SummarizationResult),
     outbound list \<times> (error + EmbeddingResult)) AIAdapter" where
  "OpenAIAdapter cl generated_id =
     \<lparr>name = ''openai'',
      chatCompletion = OpenAIAdapter_chatCompletion cl,
      chatCompletionStream = OpenAIAdapter_chatCompletionStream cl,
      generateText = OpenAIAdapter_generateText cl,
      generateTextStream = OpenAIAdapter_generateTextStream cl,
      summarize = OpenAIAdapter_summarize cl,
      createEmbeddings = OpenAIAdapter_createEmbeddings cl generated_id\<rparr>"

section \<open>JSON texts\<close>

text \<open>
  \<open>JSON.parse\<close> and \<open>JSON.stringify\<close> are functions of the JavaScript runtime. The
  definitions that need them take them as parameters (\<open>parse\<close>, with \<open>None\<close> where
  \<open>JSON.parse\<close> throws, and \<open>stringify\<close>), and the general theorems hold for every such
  pair. The reader and the printer of this section are the pair used on the concrete
  inputs: they cover objects, arrays, strings with the two-character escapes, integers and
  the three literals; a four-digit unicode escape or a fraction is not read. The reader
  descends with a counter that starts at twice the length of the text plus two.
\<close>

definition dquote :: char where
  "dquote = CHR 0x22"

definition backslash :: char where
  "backslash = CHR 0x5C"

definition is_ws :: "char \<Rightarrow> bool" where
  "is_ws c = (c = CHR '' '' \<or> c = CHR 0x0A \<or> c = CHR 0x0D \<or> c = CHR 0x09)"

definition skip_ws :: "string \<Rightarrow> string" where
  "skip_ws s = dropWhile is_ws s"

definition is_digit :: "char \<Rightarrow> bool" where
  "is_digit c = (48 \<le> (of_char c :: nat) \<and> (of_char c :: nat) \<le> 57)"

definition digits_value :: "string \<Rightarrow> nat" where
  "digits_value ds = foldl (\<lambda>a c. 10 * a + (of_char c - 48)) 0 ds"

fun strip_prefix :: "string \<Rightarrow> string \<Rightarrow> string option" where
  "strip_prefix [] s = Some s"
| "strip_prefix (p # ps) [] = None"
| "strip_prefix (p # ps) (c # cs) = (if p = c then strip_prefix ps cs else None)"

definition unescape :: "char \<Rightarrow> char option" where
  "unescape e =
     (if e = dquote then Some dquote
      else if e = backslash then Some backslash
      else if e = CHR ''/'' then Some CHR ''/''
      else if e = CHR ''n'' then Some (CHR 0x0A)
      else if e = CHR ''r'' then Some (CHR 0x0D)
      else if e = CHR ''t'' then Some (CHR 0x09)
      else if e = CHR ''b'' then Some (CHR 0x08)
      else if e = CHR ''f'' then Some (CHR 0x0C)
      else None)"

fun read_string :: "string \<Rightarrow> (string \<times> string) option" where
  "read_string [] = None"
| "read_string (c # cs) =
     (if c = dquote then Some ([], cs)
      else if c = backslash then
        (case cs of
           [] \<Rightarrow> None
         | e # r \<Rightarrow>
             (case unescape e of
                None \<Rightarrow> None
              | Some ch \<Rightarrow>
                  (case read_string r of None \<Rightarrow> None | Some (t, rest) \<Rightarrow> Some (ch # t, rest))))
      else if (of_char c :: nat) < 32 then None
      else (case read_string cs of None \<Rightarrow> None | Some (t, rest) \<Rightarrow> Some (c # t, rest)))"

definition read_number :: "string \<Rightarrow> (json \<times> string) option" where
  "read_number s =
     (let negative = (s \<noteq> [] \<and> hd s = CHR ''-'');
          s1 = (if negative then tl s else s);
          ds = takeWhile is_digit s1;
          rest = dropWhile is_digit s1
      in if ds = [] then None
         else if length ds > 1 \<and> hd ds = CHR ''0'' then None
         else if rest \<noteq> [] \<and> (hd rest = CHR ''.'' \<or> hd rest = CHR ''e'' \<or> hd rest = CHR ''E'')
           then None
         else Some (JNumber (if negative then - int (digits_value ds) else int (digits_value ds)),
                    rest))"

fun read_value :: "nat \<Rightarrow> string \<Rightarrow> (json \<times> string) option"
  and read_elements :: "nat \<Rightarrow> string \<Rightarrow> (json list \<times> string) option"
  and read_members :: "nat \<Rightarrow> string \<Rightarrow> ((string \<times> json) list \<times> string) option" where
  "read_value 0 s = None"
| "read_value (Suc n) s =
     (let s0 = skip_ws s in
      if s0 = [] then None
      else if hd s0 = CHR ''{'' then
        (let r = skip_ws (tl s0) in
         if r \<noteq> [] \<and> hd r = CHR ''}'' then Some (JObject [], tl r)
         else (case read_members n r of
                 None \<Rightarrow> None | Some (ms, rest) \<Rightarrow> Some (JObject ms, rest)))
      else if hd s0 = CHR ''['' then
        (let r = skip_ws (tl s0) in
         if r \<noteq> [] \<and> hd r = CHR '']'' then Some (JArray [], tl r)
         else (case read_elements n r of
                 None \<Rightarrow> None | Some (vs, rest) \<Rightarrow> Some (JArray vs, rest)))
      else if hd s0 = dquote then
        (case read_string (tl s0) of None \<Rightarrow> None | Some (t, rest) \<Rightarrow> Some (JString t, rest))
      else
        (case strip_prefix ''null'' s0 of
           Some rest \<Rightarrow> Some (JNull, rest)
         | None \<Rightarrow>
             (case strip_prefix ''true'' s0 of
                Some rest \<Rightarrow> Some (JBool True, rest)
              | None \<Rightarrow>
                  (case strip_prefix ''false'' s0 of
                     Some rest \<Rightarrow> Some (JBool False, rest)
                   | None \<Rightarrow> read_number s0))))"
| "read_elements 0 s = None"
| "read_elements (Suc n) s =
     (case read_value n s of
        None \<Rightarrow> None
      | Some (v, r) \<Rightarrow>
          (let r1 = skip_ws r in
           if r1 = [] then None
           else if hd r1 = CHR '','' then
             (case read_elements n (tl r1) of
                None \<Rightarrow> None | Some (vs, rest) \<Rightarrow> Some (v # vs, rest))
           else if hd r1 = CHR '']'' then Some ([v], tl r1)
           else None))"
| "read_members 0 s = None"
| "read_members (Suc n) s =
     (let s0 = skip_ws s in
      if s0 = [] \<or> hd s0 \<noteq> dquote then None
      else
        (case read_string (tl s0) of
           None \<Rightarrow> None
         | Some (k, r) \<Rightarrow>
             (let r1 = skip_ws r in
              if r1 = [] \<or> hd r1 \<noteq> CHR '':'' then None
              else
                (case read_value n (tl r1) of
                   None \<Rightarrow> None
                 | Some (v, r2) \<Rightarrow>
                     (let r3 = skip_ws r2 in
                      if r3 = [] then None
                      else if hd r3 = CHR '','' then
                        (case read_members n (tl r3) of
                           None \<Rightarrow> None | Some (ms, rest) \<Rightarrow> Some ((k, v) # ms, rest))
                      else if hd r3 = CHR ''}'' then Some ([(k, v)], tl r3)
                      else None)))))"

definition json_parse :: "string \<Rightarrow> json option" where
  "json_parse s =
     (case read_value (2 * length s + 2) s of
        None \<Rightarrow> None
      | Some (v, rest) \<Rightarrow> if skip_ws rest = [] then Some v else None)"

definition hex_digit :: "nat \<Rightarrow> char" where
  "hex_digit d = (if d < 10 then char_of (48 + d) else char_of (87 + d))"

definition escape_char :: "char \<Rightarrow> string" where
  "escape_char c =
     (if c = dquote then [backslash, dquote]
      else if c = backslash then [backslash, backslash]
      else if c = CHR 0x08 then [backslash, CHR ''b'']
      else if c = CHR 0x0C then [backslash, CHR ''f'']
      else if c = CHR 0x0A then [backslash, CHR ''n'']
      else if c = CHR 0x0D then [backslash, CHR ''r'']
      else if c = CHR 0x09 then [backslash, CHR ''t'']
      else if (of_char c :: nat) < 32 then
        [backslash, CHR ''u'', CHR ''0'', CHR ''0'',
         hex_digit ((of_char c :: nat) div 16), hex_digit ((of_char c :: nat) mod 16)]
      else [c])"

definition quote_string :: "string \<Rightarrow> string" where
  "quote_string s = dquote # concat (map escape_char s) @ [dquote]"

text \<open>
  The printer writes no whitespace, keeps the members of an object in their order, and
  escapes the characters of a string as \<open>JSON.stringify\<close> does.
\<close>

fun json_stringify :: "json \<Rightarrow> string"
  and stringify_elements :: "json list \<Rightarrow> string list"
  and stringify_members :: "(string \<times> json) list \<Rightarrow> string list" where
  "json_stringify JNull = ''null''"
| "json_stringify (JBool b) = (if b then ''true'' else ''false'')"
| "json_stringify (JNumber n) = Number_toString n"
| "json_stringify (JString s) = quote_string s"
| "json_stringify (JArray vs) = ''['' @ join '','' (stringify_elements vs) @ '']''"
| "json_stringify (JObject ms) = ''{'' @ join '','' (stringify_members ms) @ ''}''"
| "stringify_elements [] = []"
| "stringify_elements (v # vs) = json_stringify v # stringify_elements vs"
| "stringify_members [] = []"
| "stringify_members ((k, v) # ms) =
     (quote_string k @ '':'' @ json_stringify v) # stringify_members ms"

section \<open>Message translation and structured output of the Anthropic adapter\<close>

text \<open>
  Modelled from the spec: the unified message with tool calls (sections 3 and 4.2), as the
  test of the Anthropic adapter builds it. The adapter (\<open>src/adapters/text\<close> of its
  package) and the declaration of this message type are not among the source files; only
  the test is. \<open>call_name\<close> and \<open>call_arguments\<close> are \<open>function.name\<close> and
  \<open>function.arguments\<close> of a tool call, whose \<open>type\<close> is always \<open>function\<close>.
\<close>

datatype MessageRole = SystemRole | UserRole | AssistantRole | ToolRole

text \<open>Modelled from the spec: a tool call of an assistant message (section 3).\<close>

record ToolCall =
  call_id :: string
  call_name :: string
  call_arguments :: string

text \<open>
  Modelled from the spec: the message with its optional tool calls and tool-call id
  (section 3).
\<close>

record ModelMessage =
  mm_role :: MessageRole
  mm_content :: string
  mm_name :: "string option"
  mm_toolCalls :: "ToolCall list option"
  mm_toolCallId :: "string option"

text \<open>
  Modelled from the spec: the provider's content blocks (section 4.2): a text block, a tool
  invocation with its id, name and argument object, and a tool result addressed to a
  tool-call id. A turn has scalar content or a sequence of blocks.
\<close>

datatype content_block =
  TextBlock string
| ToolUseBlock string string json
| ToolResultBlock "string option" string

text \<open>Modelled from the spec: the content of a provider turn (section 4.2).\<close>

datatype turn_body = Scalar string | Blocks "content_block list"

text \<open>Modelled from the spec: a turn of the provider's message sequence (section 4.2).\<close>

record provider_turn =
  turn_role :: MessageRole
  turn_content :: turn_body

text \<open>
  Modelled from the spec: the tool-invocation block of a tool call carries the argument
  object parsed from the JSON text of \<open>arguments\<close> (section 4.2). The spec takes the
  arguments to be JSON; where they do not parse there is no block.
\<close>

definition tool_use_block :: "(string \<Rightarrow> json option) \<Rightarrow> ToolCall \<Rightarrow> content_block option" where
  "tool_use_block parse call =
     map_option (ToolUseBlock (call_id call) (call_name call)) (parse (call_arguments call))"

text \<open>
  Modelled from the spec: the message translation of the Anthropic adapter (section 4.2),
  whose source is missing. A \<open>tool\<close> message becomes a turn whose sole element is a tool
  result addressed to the message's tool-call id; the turn has the role \<open>user\<close>, as the
  test expects. An \<open>assistant\<close> message with tool calls becomes a sequence of blocks: the
  text, then one tool invocation for each tool call, in order. Every other message passes
  through with scalar content. The spec does not say whether an empty text gets a block;
  here it gets none.
\<close>

definition translate_message ::
  "(string \<Rightarrow> json option) \<Rightarrow> ModelMessage \<Rightarrow> provider_turn option" where
  "translate_message parse m =
     (if mm_role m = ToolRole then
        Some \<lparr>turn_role = UserRole,
              turn_content = Blocks [ToolResultBlock (mm_toolCallId m) (mm_content m)]\<rparr>
      else if mm_role m = AssistantRole \<and> mm_toolCalls m \<noteq> None \<and> mm_toolCalls m \<noteq> Some []
      then
        map_option
          (\<lambda>uses. \<lparr>turn_role = AssistantRole,
                    turn_content =
                      Blocks ((if mm_content m = [] then [] else [TextBlock (mm_content m)])
                              @ uses)\<rparr>)
          (those (map (tool_use_block parse) (the (mm_toolCalls m))))
      else Some \<lparr>turn_role = mm_role m, turn_content = Scalar (mm_content m)\<rparr>)"

text \<open>
  Modelled from the spec: a conversation is translated message by message, in order
  (section 4.2); the translation function of the adapter is missing.
\<close>

definition translate_messages ::
  "(string \<Rightarrow> json option) \<Rightarrow> ModelMessage list \<Rightarrow> provider_turn list option" where
  "translate_messages parse ms = those (map (translate_message parse) ms)"

text \<open>
  Modelled from the spec: the input and the result of the structured-output extractor
  (sections 3 and 4.4): the chat options the test passes (\<open>model\<close>, \<open>messages\<close>,
  \<open>maxTokens\<close>) with the target schema, and \<open>{data, rawText}\<close>. The method
  \<open>structuredOutput\<close> of the adapter is missing.
\<close>

record StructuredOutputOptions =
  soo_model :: string
  soo_messages :: "ModelMessage list"
  soo_maxTokens :: "int option"
  soo_outputSchema :: json

text \<open>Modelled from the spec: the result \<open>{data, rawText}\<close> of the extractor (section 3).\<close>

record StructuredOutputResult =
  sor_data :: json
  sor_rawText :: string

text \<open>
  Modelled from the spec: the outbound request of the extractor and the provider's
  response (section 4.4), with the fields the test reads: the structured-output directive,
  the tools, the tool choice and the streaming flag. The request is recorded with the
  conversation as the caller gave it.
\<close>

record output_format =
  fmt_type :: string
  fmt_name :: string
  fmt_schema :: json

text \<open>Modelled from the spec: the synthetic tool of the fallback (section 4.4).\<close>

record tool_definition =
  td_name :: string
  td_description :: string
  td_input_schema :: json

text \<open>Modelled from the spec: the outbound request of the extractor (section 4.4).\<close>

record structured_request =
  xr_model :: string
  xr_messages :: "ModelMessage list"
  xr_max_tokens :: "int option"
  xr_stream :: bool
  xr_output_format :: "output_format option"
  xr_tools :: "tool_definition list"
  xr_tool_choice :: "string option"

text \<open>Modelled from the spec: the provider's response, its content blocks (section 4.4).\<close>

record provider_response =
  pr_content :: "content_block list"

text \<open>
  Modelled from the spec: the errors of the extractor (section 7): a transport error passed
  on from the provider, and \<open>StructuredOutputParseError\<close> with the offending raw text. The
  spec does not say what the fallback does with a response that has no tool invocation;
  the model ends with \<open>NoToolInvocation\<close> there.
\<close>

datatype extractor_error =
  TransportError string
| StructuredOutputParseError string
| NoToolInvocation

text \<open>
  Modelled from the spec: the text of a response block and the structured input of the
  first tool-invocation block of a response (section 4.4).
\<close>

fun block_text :: "content_block \<Rightarrow> string option" where
  "block_text (TextBlock t) = Some t"
| "block_text (ToolUseBlock i n v) = None"
| "block_text (ToolResultBlock i c) = None"

text \<open>
  Modelled from the spec: the structured input of the first tool-invocation block of a
  response (section 4.4).
\<close>

fun first_tool_input :: "content_block list \<Rightarrow> json option" where
  "first_tool_input [] = None"
| "first_tool_input (ToolUseBlock i n v # bs) = Some v"
| "first_tool_input (TextBlock t # bs) = first_tool_input bs"
| "first_tool_input (ToolResultBlock i c # bs) = first_tool_input bs"

text \<open>
  Modelled from the spec: the request of the schema-constrained mode (section 4.4): the
  schema attached as a \<open>json_schema\<close> format named \<open>structured_output\<close>, streaming
  disabled.
\<close>

definition schema_request :: "StructuredOutputOptions \<Rightarrow> structured_request" where
  "schema_request options =
     \<lparr>xr_model = soo_model options,
      xr_messages = soo_messages options,
      xr_max_tokens = soo_maxTokens options,
      xr_stream = False,
      xr_output_format =
        Some \<lparr>fmt_type = ''json_schema'', fmt_name = ''structured_output'',
              fmt_schema = soo_outputSchema options\<rparr>,
      xr_tools = [],
      xr_tool_choice = None\<rparr>"

text \<open>
  Modelled from the spec: the request of the tool-use fallback (section 4.4): a single tool
  named \<open>structured_output\<close> whose input schema is the target schema, the tool choice
  pinned to it, streaming disabled. The description of the tool is the one the test
  expects.
\<close>

definition tool_request :: "StructuredOutputOptions \<Rightarrow> structured_request" where
  "tool_request options =
     \<lparr>xr_model = soo_model options,
      xr_messages = soo_messages options,
      xr_max_tokens = soo_maxTokens options,
      xr_stream = False,
      xr_output_format = None,
      xr_tools =
        [\<lparr>td_name = ''structured_output'',
          td_description =
            ''Use this tool to provide your response in the required structured format.'',
          td_input_schema = soo_outputSchema options\<rparr>],
      xr_tool_choice = Some ''structured_output''\<rparr>"

text \<open>
  Modelled from the spec: the structured-output extractor (section 4.4), the missing method
  \<open>structuredOutput\<close>. The mode is chosen by a capability predicate on the model,
  \<open>supports_schema\<close>, a parameter. In the schema-constrained mode the text of the response
  is the raw text and is parsed; a text that does not parse ends the call with
  \<open>StructuredOutputParseError\<close>. In the fallback the structured input of the first tool
  invocation is the data, and the raw text is its serialization. \<open>send\<close> is the provider
  transport; the result comes with the requests issued. The spec speaks of the sole text
  block of a response; the texts of several are joined here.
\<close>

definition structuredOutput ::
  "(string \<Rightarrow> bool) \<Rightarrow> (string \<Rightarrow> json option) \<Rightarrow> (json \<Rightarrow> string) \<Rightarrow>
   (structured_request \<Rightarrow> extractor_error + provider_response) \<Rightarrow>
   StructuredOutputOptions \<Rightarrow>
   structured_request list \<times> (extractor_error + StructuredOutputResult)" where
  "structuredOutput supports_schema parse stringify send options =
     (if supports_schema (soo_model options) then
        (let request = schema_request options in
         ([request],
          case send request of
            Inl e \<Rightarrow> Inl e
          | Inr response \<Rightarrow>
              (let raw = concat (List.map_filter block_text (pr_content response)) in
               case parse raw of
                 None \<Rightarrow> Inl (StructuredOutputParseError raw)
               | Some v \<Rightarrow> Inr \<lparr>sor_data = v, sor_rawText = raw\<rparr>)))
      else
        (let request = tool_request options in
         ([request],
          case send request of
            Inl e \<Rightarrow> Inl e
          | Inr response \<Rightarrow>
              (case first_tool_input (pr_content response) of
                 None \<Rightarrow> Inl NoToolInvocation
               | Some v \<Rightarrow> Inr \<lparr>sor_data = v, sor_rawText = stringify v\<rparr>))))"

section \<open>Notions the properties are stated with\<close>

text \<open>
  The text a streamed provider event adds to the answer: the \<open>content\<close> of the delta of
  its first choice, nothing when the event has no choice or no content.
\<close>

definition delta_text :: "chat_chunk \<Rightarrow> string" where
  "delta_text chunk =
     (case ck_choices chunk of
        [] \<Rightarrow> []
      | choice # _ \<Rightarrow> (case dl_content (cd_delta choice) of None \<Rightarrow> [] | Some c \<Rightarrow> c))"

text \<open>
  A non-streamed response and a stream of events carry the same model response when the
  response has a first choice whose message text (empty when \<open>null\<close>) is the concatenation
  of the texts of the events.
\<close>

definition same_model_response :: "chat_completion \<Rightarrow> chat_chunk list \<Rightarrow> bool" where
  "same_model_response response stream =
     (case cc_choices response of
        [] \<Rightarrow> False
      | choice # _ \<Rightarrow>
          (case cm_content (ch_message choice) of None \<Rightarrow> [] | Some c \<Rightarrow> c) =
          concat (map delta_text stream))"

text \<open>A usage-only chunk has no content and a usage; it is left out when it ends a stream.\<close>

definition usage_only :: "ChatCompletionChunk \<Rightarrow> bool" where
  "usage_only c = (ccc_content c = [] \<and> ccc_usage c \<noteq> None)"

definition excluding_terminal_usage :: "ChatCompletionChunk list \<Rightarrow> ChatCompletionChunk list" where
  "excluding_terminal_usage chunks =
     (if chunks \<noteq> [] \<and> usage_only (last chunks) then butlast chunks else chunks)"

text \<open>The number of inputs of an embedding call: a single string counts as one.\<close>

fun input_count :: "EmbeddingInput \<Rightarrow> nat" where
  "input_count (Single s) = 1"
| "input_count (Many xs) = length xs"

section \<open>Concrete inputs\<close>

text \<open>
  A provider that answers every request: the chat answer is \<open>Hello\<close>, streamed as two
  deltas, then an event with the finish reason and an empty delta, then an event with no
  choice and the usage totals. It returns one vector for each embedding input.
\<close>

definition demo_usage :: wire_usage where
  "demo_usage = \<lparr>prompt_tokens = 9, completion_tokens = 2, total_tokens = 11\<rparr>"

definition demo_stream :: "chat_chunk list" where
  "demo_stream =
     [\<lparr>ck_id = ''chatcmpl-1'', ck_model = ''gpt-3.5-turbo'',
       ck_choices = [\<lparr>cd_delta = \<lparr>dl_content = Some ''Hel'', dl_role = Some ''assistant''\<rparr>,
                      cd_finish_reason = None\<rparr>],
       ck_usage = None\<rparr>,
      \<lparr>ck_id = ''chatcmpl-1'', ck_model = ''gpt-3.5-turbo'',
       ck_choices = [\<lparr>cd_delta = \<lparr>dl_content = Some ''lo'', dl_role = None\<rparr>,
                      cd_finish_reason = None\<rparr>],
       ck_usage = None\<rparr>,
      \<lparr>ck_id = ''chatcmpl-1'', ck_model = ''gpt-3.5-turbo'',
       ck_choices = [\<lparr>cd_delta = \<lparr>dl_content = None, dl_role = None\<rparr>,
                      cd_finish_reason = Some ''stop''\<rparr>],
       ck_usage = None\<rparr>,
      \<lparr>ck_id = ''chatcmpl-1'', ck_model = ''gpt-3.5-turbo'',
       ck_choices = [],
       ck_usage = Some demo_usage\<rparr>]"

definition demo_completion :: chat_completion where
  "demo_completion =
     \<lparr>cc_id = ''chatcmpl-1'', cc_model = ''gpt-3.5-turbo'',
      cc_choices = [\<lparr>ch_message = \<lparr>cm_content = Some ''Hello''\<rparr>,
                     ch_finish_reason = Some ''stop''\<rparr>],
      cc_usage = Some demo_usage\<rparr>"

definition demo_embeddings :: "embedding_request \<Rightarrow> embedding_response" where
  "demo_embeddings request =
     \<lparr>em_data =
        (case eq_input request of
           Single s \<Rightarrow> [\<lparr>embedding = [1 / 2]\<rparr>]
         | Many xs \<Rightarrow> map (\<lambda>x. \<lparr>embedding = [1 / 2]\<rparr>) xs),
      em_model = eq_model request,
      em_usage = \<lparr>emu_prompt_tokens = 3, emu_total_tokens = 3\<rparr>\<rparr>"

definition demo_client :: client where
  "demo_client =
     \<lparr>chat_create = (\<lambda>request. Inr demo_completion),
      chat_create_stream = (\<lambda>request. Inr demo_stream),
      completions_create = (\<lambda>request. Inr
        \<lparr>tc_id = ''cmpl-1'', tc_model = tq_model request,
         tc_choices = [\<lparr>tx_text = ''Hello'', tx_finish_reason = Some ''stop''\<rparr>],
         tc_usage = Some demo_usage\<rparr>),
      completions_create_stream = (\<lambda>request. Inr
        [\<lparr>tc_id = ''cmpl-1'', tc_model = tq_model request,
          tc_choices = [\<lparr>tx_text = ''Hello'', tx_finish_reason = Some ''stop''\<rparr>],
          tc_usage = None\<rparr>]),
      embeddings_create = (\<lambda>request. Inr (demo_embeddings request))\<rparr>"

text \<open>Chat options with an empty model and no message, every optional field absent.\<close>

definition empty_chat_options :: ChatCompletionOptions where
  "empty_chat_options =
     \<lparr>cco_model = [], cco_messages = [], cco_temperature = None, cco_maxTokens = None,
      cco_topP = None, cco_frequencyPenalty = None, cco_presencePenalty = None,
      cco_stopSequences = None, cco_stream = None, cco_metadata = None\<rparr>"

definition demo_embedding_options :: EmbeddingOptions where
  "demo_embedding_options =
     \<lparr>eo_model = ''text-embedding-3-small'', eo_input = Many [''a'', ''b'', ''c''],
      eo_dimensions = None\<rparr>"

text \<open>
  A provider that answers every embedding request with two vectors, whatever the input,
  and embedding options with a single string as input.
\<close>

definition two_vector_client :: client where
  "two_vector_client =
     demo_client\<lparr>embeddings_create := (\<lambda>request. Inr
        \<lparr>em_data = [\<lparr>embedding = [1 / 2]\<rparr>, \<lparr>embedding = [1 / 4]\<rparr>],
         em_model = eq_model request,
         em_usage = \<lparr>emu_prompt_tokens = 3, emu_total_tokens = 3\<rparr>\<rparr>)\<rparr>"

definition single_embedding_options :: EmbeddingOptions where
  "single_embedding_options =
     \<lparr>eo_model = ''text-embedding-3-small'', eo_input = Single ''hello'',
      eo_dimensions = None\<rparr>"

text \<open>An adapter whose streaming operations answer with the \<open>stream\<close> flag they receive.\<close>

definition probe_adapter :: "(unit, bool option, unit, bool option, unit, unit) AIAdapter" where
  "probe_adapter =
     \<lparr>name = ''probe'',
      chatCompletion = (\<lambda>options. ()),
      chatCompletionStream = cco_stream,
      generateText = (\<lambda>options. ()),
      generateTextStream = tgo_stream,
      summarize = (\<lambda>options. ()),
      createEmbeddings = (\<lambda>options. ())\<rparr>"

text \<open>
  The conversation of the adapter's test (a question, an assistant turn with one tool call,
  the tool's result), the options of its structured-output tests, and a capability
  predicate under which \<open>claude-sonnet-4\<close> has schema-constrained output and
  \<open>claude-3-7-sonnet\<close> does not.
\<close>

definition forecast_conversation :: "ModelMessage list" where
  "forecast_conversation =
     [\<lparr>mm_role = UserRole, mm_content = ''What is the forecast?'', mm_name = None,
       mm_toolCalls = None, mm_toolCallId = None\<rparr>,
      \<lparr>mm_role = AssistantRole, mm_content = ''Checking'', mm_name = None,
       mm_toolCalls = Some [\<lparr>call_id = ''call_weather'', call_name = ''lookup_weather'',
                             call_arguments = ''{\"location\":\"Berlin\"}''\<rparr>],
       mm_toolCallId = None\<rparr>,
      \<lparr>mm_role = ToolRole, mm_content = ''{\"temp\":72}'', mm_name = None,
       mm_toolCalls = None, mm_toolCallId = Some ''call_weather''\<rparr>]"

definition person_options :: "string \<Rightarrow> StructuredOutputOptions" where
  "person_options model_id =
     \<lparr>soo_model = model_id,
      soo_messages = [\<lparr>mm_role = UserRole, mm_content = ''Return a person object'',
                       mm_name = None, mm_toolCalls = None, mm_toolCallId = None\<rparr>],
      soo_maxTokens = Some 1024,
      soo_outputSchema = JObject [(''type'', JString ''object'')]\<rparr>"

definition demo_supports_schema :: "string \<Rightarrow> bool" where
  "demo_supports_schema model_id = (model_id = ''claude-sonnet-4'')"

section \<open>Properties of the OpenAI adapter\<close>

subsection \<open>Summarization\<close>

text \<open>
  C10. For every \<open>SummarizationOptions\<close> and every client, \<open>summarize\<close> issues exactly one
  outbound request, a chat request with two messages: a system message holding the prompt
  of \<open>buildSummarizationPrompt\<close>, then a user message holding \<open>options.text\<close>;
  \<open>temperature\<close> is 0.3, \<open>max_tokens\<close> is \<open>options.maxLength\<close>, streaming is off and no
  other sampling field is sent. The prompt does not change when \<open>model\<close> and \<open>text\<close>, the
  only options besides \<open>style\<close>, \<open>focus\<close> and \<open>maxLength\<close>, are replaced by any values.
\<close>

theorem summarize_issues_one_fixed_request:
  "fst (OpenAIAdapter_summarize cl options) =
     [ChatCompletionsCreate
        \<lparr>rq_model = (if so_model options = [] then ''gpt-3.5-turbo'' else so_model options),
         rq_messages =
           [\<lparr>wm_role = System, wm_content = buildSummarizationPrompt options, wm_name = None\<rparr>,
            \<lparr>wm_role = User, wm_content = so_text options, wm_name = None\<rparr>],
         rq_temperature = Some (3 / 10),
         rq_max_tokens = so_maxLength options,
         rq_top_p = None,
         rq_frequency_penalty = None,
         rq_presence_penalty = None,
         rq_stop = None,
         rq_stream = False\<rparr>]
   \<and> buildSummarizationPrompt (options\<lparr>so_model := m, so_text := t\<rparr>) =
       buildSummarizationPrompt options"
  by (simp add: OpenAIAdapter_summarize_def summarize_payload_def or_string_def
      buildSummarizationPrompt_def Let_def)

subsection \<open>No operation checks its options\<close>

text \<open>
  C1, as the claim states it, fails: with an empty \<open>model\<close> and an empty \<open>messages\<close>,
  \<open>chatCompletion\<close> issues a request, for the model \<open>gpt-3.5-turbo\<close> and with no
  message, and returns the provider's answer.
\<close>

theorem chatCompletion_empty_options_reach_provider:
  "cco_model empty_chat_options = [] \<and> cco_messages empty_chat_options = [] \<and>
   OpenAIAdapter_chatCompletion demo_client empty_chat_options =
     ([ChatCompletionsCreate
         \<lparr>rq_model = ''gpt-3.5-turbo'', rq_messages = [], rq_temperature = None,
          rq_max_tokens = None, rq_top_p = None, rq_frequency_penalty = None,
          rq_presence_penalty = None, rq_stop = None, rq_stream = False\<rparr>],
      Inr \<lparr>ccr_id = ''chatcmpl-1'', ccr_model = ''gpt-3.5-turbo'', ccr_content = ''Hello'',
           ccr_role = Assistant, ccr_finishReason = Some ''stop'',
           ccr_usage = \<lparr>promptTokens = 9, completionTokens = 2, totalTokens = 11\<rparr>\<rparr>)"
  by (simp add: empty_chat_options_def OpenAIAdapter_chatCompletion_def chat_payload_def
      demo_client_def demo_completion_def demo_usage_def usage_of_def or_zero_def or_string_def)

text \<open>
  C1, amended. For every client and all options, empty fields included, each of the six
  operations of the OpenAI adapter issues exactly one outbound request. In it, an empty
  \<open>model\<close> is replaced by the default of the operation (\<open>gpt-3.5-turbo\<close> for chat and
  summarization, \<open>gpt-3.5-turbo-instruct\<close> for text generation,
  \<open>text-embedding-ada-002\<close> for embeddings) and the content field (\<open>messages\<close>,
  \<open>prompt\<close>, \<open>text\<close>, \<open>input\<close>) is sent as given.
\<close>

theorem operations_issue_one_request_unvalidated:
  "fst (OpenAIAdapter_chatCompletion cl copts) =
     [ChatCompletionsCreate (chat_payload copts False)] \<and>
   fst (OpenAIAdapter_chatCompletionStream cl copts) =
     [ChatCompletionsCreate (chat_payload copts True)] \<and>
   fst (OpenAIAdapter_generateText cl topts) = [CompletionsCreate (text_payload topts False)] \<and>
   fst (OpenAIAdapter_generateTextStream cl topts) =
     [CompletionsCreate (text_payload topts True)] \<and>
   fst (OpenAIAdapter_summarize cl sopts) = [ChatCompletionsCreate (summarize_payload sopts)] \<and>
   fst (OpenAIAdapter_createEmbeddings cl gid eopts) =
     [EmbeddingsCreate
        \<lparr>eq_model =
           (if eo_model eopts = [] then ''text-embedding-ada-002'' else eo_model eopts),
         eq_input = eo_input eopts, eq_dimensions = eo_dimensions eopts\<rparr>] \<and>
   rq_model (chat_payload copts s) =
     (if cco_model copts = [] then ''gpt-3.5-turbo'' else cco_model copts) \<and>
   rq_messages (chat_payload copts s) = map to_wire_message (cco_messages copts) \<and>
   tq_model (text_payload topts s) =
     (if tgo_model topts = [] then ''gpt-3.5-turbo-instruct'' else tgo_model topts) \<and>
   tq_prompt (text_payload topts s) = tgo_prompt topts \<and>
   rq_model (summarize_payload sopts) =
     (if so_model sopts = [] then ''gpt-3.5-turbo'' else so_model sopts) \<and>
   wm_content (last (rq_messages (summarize_payload sopts))) = so_text sopts"
  by (simp add: OpenAIAdapter_chatCompletion_def OpenAIAdapter_chatCompletionStream_def
      OpenAIAdapter_generateText_def OpenAIAdapter_generateTextStream_def
      OpenAIAdapter_summarize_def OpenAIAdapter_createEmbeddings_def
      chat_payload_def text_payload_def summarize_payload_def or_string_def Let_def)

subsection \<open>The chat stream\<close>

lemma chat_chunk_yield_Some:
  "chat_chunk_yield ev = Some c \<Longrightarrow>
     ccc_content c = delta_text ev \<and> ccc_content c \<noteq> [] \<and> ccc_usage c = None \<and>
     ccc_id c = ck_id ev \<and> ccc_model c = ck_model ev \<and>
     (\<exists>choice rest. ck_choices ev = choice # rest \<and>
        dl_content (cd_delta choice) = Some (ccc_content c) \<and>
        ccc_role c = dl_role (cd_delta choice) \<and>
        ccc_finishReason c = cd_finish_reason choice)"
  by (auto simp: chat_chunk_yield_def delta_text_def split: list.splits option.splits if_splits)

lemma chat_chunk_yield_None: "chat_chunk_yield ev = None \<Longrightarrow> delta_text ev = []"
  by (auto simp: chat_chunk_yield_def delta_text_def split: list.splits option.splits if_splits)

lemma text_event_yields:
  assumes "ck_choices ev = choice # rest" and "dl_content (cd_delta choice) = Some c"
    and "c \<noteq> []"
  shows "chat_chunk_yield ev =
           Some \<lparr>ccc_id = ck_id ev, ccc_model = ck_model ev, ccc_content = c,
                 ccc_role = dl_role (cd_delta choice),
                 ccc_finishReason = cd_finish_reason choice, ccc_usage = None\<rparr>"
  using assms by (simp add: chat_chunk_yield_def)

lemma concat_yielded_content:
  "concat (map ccc_content (List.map_filter chat_chunk_yield stream)) =
   concat (map delta_text stream)"
proof (induction stream)
  case Nil
  show ?case by (simp add: List.map_filter_simps)
next
  case (Cons ev stream)
  show ?case
  proof (cases "chat_chunk_yield ev")
    case None
    with Cons chat_chunk_yield_None[OF None] show ?thesis
      by (simp add: List.map_filter_simps)
  next
    case (Some c)
    with Cons chat_chunk_yield_Some[OF Some] show ?thesis
      by (simp add: List.map_filter_simps)
  qed
qed

lemma yielded_has_no_usage_only_chunk:
  "excluding_terminal_usage (List.map_filter chat_chunk_yield stream) =
   List.map_filter chat_chunk_yield stream"
proof -
  have "\<forall>c \<in> set (List.map_filter chat_chunk_yield stream). \<not> usage_only c"
    by (auto simp: List.map_filter_def usage_only_def dest: chat_chunk_yield_Some)
  then show ?thesis
    by (auto simp: excluding_terminal_usage_def)
qed

text \<open>
  C3, as the claim states it, fails: the provider's events end with one that carries the
  finish reason \<open>stop\<close> and one that carries the usage totals, and the stream of the
  adapter is the two text chunks, both with \<open>finishReason\<close> null and no \<open>usage\<close>; no final
  chunk follows them.
\<close>

theorem chatCompletionStream_drops_terminal_event:
  "snd (OpenAIAdapter_chatCompletionStream demo_client empty_chat_options) =
     Inr [\<lparr>ccc_id = ''chatcmpl-1'', ccc_model = ''gpt-3.5-turbo'', ccc_content = ''Hel'',
           ccc_role = Some ''assistant'', ccc_finishReason = None, ccc_usage = None\<rparr>,
          \<lparr>ccc_id = ''chatcmpl-1'', ccc_model = ''gpt-3.5-turbo'', ccc_content = ''lo'',
           ccc_role = None, ccc_finishReason = None, ccc_usage = None\<rparr>]"
  by (simp add: OpenAIAdapter_chatCompletionStream_def demo_client_def demo_stream_def
      List.map_filter_simps chat_chunk_yield_def)

text \<open>
  C3, amended. When the provider delivers a stream, every event of it whose first choice
  carries a non-empty text in its delta yields a chunk with the id and the model of that
  event and the text, the role and the finish reason of that choice, so the chunk's
  \<open>finishReason\<close> is null when the event carries none; and no chunk of the stream carries
  \<open>usage\<close>. Nothing is stated of the events without text.
\<close>

theorem chatCompletionStream_text_events_yield_chunks:
  assumes "chat_create_stream cl (chat_payload options True) = Inr stream"
  shows "\<exists>chunks.
           snd (OpenAIAdapter_chatCompletionStream cl options) = Inr chunks \<and>
           (\<forall>k \<in> set chunks. ccc_usage k = None) \<and>
           (\<forall>ev \<in> set stream. \<forall>choice rest c.
              ck_choices ev = choice # rest \<and> dl_content (cd_delta choice) = Some c \<and> c \<noteq> []
              \<longrightarrow> (\<exists>k \<in> set chunks.
                     ccc_id k = ck_id ev \<and> ccc_model k = ck_model ev \<and>
                     ccc_content k = c \<and> ccc_role k = dl_role (cd_delta choice) \<and>
                     ccc_finishReason k = cd_finish_reason choice))"
proof -
  let ?chunks = "List.map_filter chat_chunk_yield stream"
  have r: "snd (OpenAIAdapter_chatCompletionStream cl options) = Inr ?chunks"
    using assms by (simp add: OpenAIAdapter_chatCompletionStream_def Let_def)
  have u: "\<forall>k \<in> set ?chunks. ccc_usage k = None"
    by (auto simp: List.map_filter_def dest: chat_chunk_yield_Some)
  have t: "\<exists>k \<in> set ?chunks.
             ccc_id k = ck_id ev \<and> ccc_model k = ck_model ev \<and>
             ccc_content k = c \<and> ccc_role k = dl_role (cd_delta choice) \<and>
             ccc_finishReason k = cd_finish_reason choice"
    if "ev \<in> set stream" "ck_choices ev = choice # rest"
       "dl_content (cd_delta choice) = Some c" "c \<noteq> []" for ev choice rest c
  proof -
    from text_event_yields[OF that(2,3,4)] that(1)
    have "\<lparr>ccc_id = ck_id ev, ccc_model = ck_model ev, ccc_content = c,
           ccc_role = dl_role (cd_delta choice),
           ccc_finishReason = cd_finish_reason choice, ccc_usage = None\<rparr> \<in> set ?chunks"
      by (force simp: List.map_filter_def)
    then show ?thesis
      by (intro bexI[where x = "\<lparr>ccc_id = ck_id ev, ccc_model = ck_model ev, ccc_content = c,
           ccc_role = dl_role (cd_delta choice),
           ccc_finishReason = cd_finish_reason choice, ccc_usage = None\<rparr>"]) simp_all
  qed
  from r u t show ?thesis
    by blast
qed

theorem chatCompletionStream_text_events_yield_chunks_witness:
  "\<exists>chunks.
     snd (OpenAIAdapter_chatCompletionStream demo_client empty_chat_options) = Inr chunks \<and>
     list_all (\<lambda>k. ccc_usage k = None) chunks \<and>
     (\<exists>k \<in> set chunks. ccc_content k = ''Hel'' \<and> ccc_role k = Some ''assistant'' \<and>
        ccc_finishReason k = None) \<and>
     (\<exists>k \<in> set chunks. ccc_content k = ''lo'')"
proof -
  have h: "chat_create_stream demo_client (chat_payload empty_chat_options True) =
             Inr demo_stream"
    by (simp add: demo_client_def)
  let ?e1 = "\<lparr>ck_id = ''chatcmpl-1'', ck_model = ''gpt-3.5-turbo'',
       ck_choices = [\<lparr>cd_delta = \<lparr>dl_content = Some ''Hel'', dl_role = Some ''assistant''\<rparr>,
                      cd_finish_reason = None\<rparr>],
       ck_usage = None\<rparr>"
  let ?e2 = "\<lparr>ck_id = ''chatcmpl-1'', ck_model = ''gpt-3.5-turbo'',
       ck_choices = [\<lparr>cd_delta = \<lparr>dl_content = Some ''lo'', dl_role = None\<rparr>,
                      cd_finish_reason = None\<rparr>],
       ck_usage = None\<rparr>"
  have m1: "?e1 \<in> set demo_stream" and m2: "?e2 \<in> set demo_stream"
    by (simp_all add: demo_stream_def)
  from chatCompletionStream_text_events_yield_chunks[OF h] obtain chunks where
    r: "snd (OpenAIAdapter_chatCompletionStream demo_client empty_chat_options) = Inr chunks"
    and u: "\<forall>k \<in> set chunks. ccc_usage k = None"
    and t: "\<forall>ev \<in> set demo_stream. \<forall>choice rest c.
              ck_choices ev = choice # rest \<and> dl_content (cd_delta choice) = Some c \<and> c \<noteq> []
              \<longrightarrow> (\<exists>k \<in> set chunks.
                     ccc_id k = ck_id ev \<and> ccc_model k = ck_model ev \<and>
                     ccc_content k = c \<and> ccc_role k = dl_role (cd_delta choice) \<and>
                     ccc_finishReason k = cd_finish_reason choice)"
    by blast
  have k1: "\<exists>k \<in> set chunks. ccc_content k = ''Hel'' \<and>
      ccc_role k = Some ''assistant'' \<and> ccc_finishReason k = None"
    using t[rule_format, OF m1,
        of "\<lparr>cd_delta = \<lparr>dl_content = Some ''Hel'', dl_role = Some ''assistant''\<rparr>,
            cd_finish_reason = None\<rparr>" "[]" "''Hel''"]
    by auto
  have k2: "\<exists>k \<in> set chunks. ccc_content k = ''lo''"
    using t[rule_format, OF m2,
        of "\<lparr>cd_delta = \<lparr>dl_content = Some ''lo'', dl_role = None\<rparr>,
            cd_finish_reason = None\<rparr>" "[]" "''lo''"]
    by auto
  from r u k1 k2 show ?thesis
    by (auto simp: list_all_iff)
qed

text \<open>
  C2. Let the provider answer the non-streamed chat request with \<open>response\<close> and the
  streamed one with \<open>stream\<close>, the two carrying the same model response. Then both
  operations return, and the concatenation of the \<open>content\<close> of the chunks of
  \<open>chatCompletionStream\<close>, a terminal usage-only chunk left out, is the \<open>content\<close> of the
  result of \<open>chatCompletion\<close>.
\<close>

theorem stream_content_concat_equals_completion_content:
  assumes "chat_create cl (chat_payload options False) = Inr response"
    and "chat_create_stream cl (chat_payload options True) = Inr stream"
    and "same_model_response response stream"
  shows "\<exists>result chunks.
           snd (OpenAIAdapter_chatCompletion cl options) = Inr result \<and>
           snd (OpenAIAdapter_chatCompletionStream cl options) = Inr chunks \<and>
           concat (map ccc_content (excluding_terminal_usage chunks)) = ccr_content result"
proof -
  from assms(3) obtain choice rest where ch: "cc_choices response = choice # rest"
    and tx: "(case cm_content (ch_message choice) of None \<Rightarrow> [] | Some c \<Rightarrow> c) =
             concat (map delta_text stream)"
    by (auto simp: same_model_response_def split: list.splits)
  have r: "snd (OpenAIAdapter_chatCompletion cl options) =
        Inr \<lparr>ccr_id = cc_id response, ccr_model = cc_model response,
             ccr_content = concat (map delta_text stream), ccr_role = Assistant,
             ccr_finishReason = ch_finish_reason choice,
             ccr_usage = usage_of (cc_usage response)\<rparr>"
    using assms(1) ch tx
    by (auto simp: OpenAIAdapter_chatCompletion_def Let_def or_string_def split: option.splits)
  have s: "snd (OpenAIAdapter_chatCompletionStream cl options) =
             Inr (List.map_filter chat_chunk_yield stream)"
    using assms(2) by (simp add: OpenAIAdapter_chatCompletionStream_def Let_def)
  show ?thesis
    using r s by (simp add: yielded_has_no_usage_only_chunk concat_yielded_content)
qed

theorem stream_content_concat_equals_completion_content_witness:
  "\<exists>result chunks.
     snd (OpenAIAdapter_chatCompletion demo_client empty_chat_options) = Inr result \<and>
     snd (OpenAIAdapter_chatCompletionStream demo_client empty_chat_options) = Inr chunks \<and>
     concat (map ccc_content (excluding_terminal_usage chunks)) = ccr_content result \<and>
     ccr_content result = ''Hello''"
proof -
  have h1: "chat_create demo_client (chat_payload empty_chat_options False) =
              Inr demo_completion"
    by (simp add: demo_client_def)
  have h2: "chat_create_stream demo_client (chat_payload empty_chat_options True) =
              Inr demo_stream"
    by (simp add: demo_client_def)
  have h3: "same_model_response demo_completion demo_stream"
    by (simp add: same_model_response_def demo_completion_def demo_stream_def delta_text_def)
  have c: "\<And>result.
       snd (OpenAIAdapter_chatCompletion demo_client empty_chat_options) = Inr result
       \<Longrightarrow> ccr_content result = ''Hello''"
    by (auto simp: OpenAIAdapter_chatCompletion_def demo_client_def demo_completion_def
        or_string_def)
  from stream_content_concat_equals_completion_content[OF h1 h2 h3] c show ?thesis
    by blast
qed

subsection \<open>Embeddings\<close>

text \<open>
  C9, as the claim states it, fails: \<open>createEmbeddings\<close> never counts its inputs. With a
  single string as input and a provider that answers with two vectors, the result has two
  embeddings.
\<close>

theorem createEmbeddings_two_vectors_for_one_input:
  "input_count (eo_input single_embedding_options) = 1 \<and>
   snd (OpenAIAdapter_createEmbeddings two_vector_client ''emb-1'' single_embedding_options) =
     Inr \<lparr>er_id = ''emb-1'', er_model = ''text-embedding-3-small'',
          er_embeddings = [[1 / 2], [1 / 4]],
          er_usage = \<lparr>eu_promptTokens = 3, eu_totalTokens = 3\<rparr>\<rparr>"
  by (simp add: OpenAIAdapter_createEmbeddings_def two_vector_client_def
      single_embedding_options_def or_string_def Let_def)

text \<open>
  C9, amended. When the provider answers the embedding request of \<open>createEmbeddings\<close>,
  the operation returns a result whose \<open>embeddings\<close> are the vectors of the data of the
  response, one for each datum and in order. Their number is the number of data the
  provider returned; it is the number of inputs supplied (1 for a single string, N for a
  list of N strings) exactly when the provider returned one datum for each input.
\<close>

theorem createEmbeddings_one_vector_per_datum:
  assumes "fst (OpenAIAdapter_createEmbeddings cl gid options) = [EmbeddingsCreate request]"
    and "embeddings_create cl request = Inr response"
  shows "\<exists>result. snd (OpenAIAdapter_createEmbeddings cl gid options) = Inr result \<and>
           er_embeddings result = map embedding (em_data response) \<and>
           length (er_embeddings result) = length (em_data response) \<and>
           (length (er_embeddings result) = input_count (eo_input options) \<longleftrightarrow>
            length (em_data response) = input_count (eq_input request))"
  using assms by (auto simp: OpenAIAdapter_createEmbeddings_def Let_def)

theorem createEmbeddings_one_vector_per_datum_witness:
  "\<exists>result.
     snd (OpenAIAdapter_createEmbeddings demo_client ''emb-1'' demo_embedding_options) =
       Inr result \<and>
     er_embeddings result = [[1 / 2], [1 / 2], [1 / 2]] \<and>
     length (er_embeddings result) = 3"
proof -
  let ?request = "\<lparr>eq_model = ''text-embedding-3-small'', eq_input = Many [''a'', ''b'', ''c''],
                   eq_dimensions = None\<rparr>"
  have h1: "fst (OpenAIAdapter_createEmbeddings demo_client ''emb-1'' demo_embedding_options) =
              [EmbeddingsCreate ?request]"
    by (simp add: OpenAIAdapter_createEmbeddings_def demo_embedding_options_def or_string_def
        Let_def)
  have h2: "embeddings_create demo_client ?request = Inr (demo_embeddings ?request)"
    by (simp add: demo_client_def)
  have d: "map embedding (em_data (demo_embeddings ?request)) = [[1 / 2], [1 / 2], [1 / 2]]"
    by (simp add: demo_embeddings_def)
  from createEmbeddings_one_vector_per_datum[OF h1 h2] d show ?thesis
    by auto
qed

section \<open>Properties of the data model\<close>

lemma Role_UNIV: "(UNIV :: Role set) = {System, User, Assistant}"
  using Role.exhaust by auto

lemma Role_card: "card (UNIV :: Role set) = 3"
  unfolding Role_UNIV by simp

text \<open>
  C4, as the claim states it, fails: \<open>Message.role\<close> has three values, so there are no
  four distinct roles, and no role \<open>tool\<close> among them.
\<close>

theorem Message_has_no_fourth_role: "\<not> (\<exists>rs :: Role list. distinct rs \<and> length rs = 4)"
proof
  assume "\<exists>rs :: Role list. distinct rs \<and> length rs = 4"
  then obtain rs :: "Role list" where d: "distinct rs" and l: "length rs = 4"
    by blast
  have "finite (UNIV :: Role set)"
    unfolding Role_UNIV by simp
  then have "card (set rs) \<le> card (UNIV :: Role set)"
    by (intro card_mono) auto
  moreover have "card (set rs) = 4"
    using d l by (simp add: distinct_card)
  ultimately show False
    using Role_card by simp
qed

text \<open>
  C4, amended. The unified \<open>Message\<close> admits exactly the three roles system, user and
  assistant; a message is a role, a content and an optional name, and these three fields
  are what the adapter sends for it. There is no tool role, and a message carries neither
  tool calls nor a tool-call id.
\<close>

theorem Message_roles_are_system_user_assistant:
  "(UNIV :: Role set) = {System, User, Assistant} \<and> card (UNIV :: Role set) = 3 \<and>
   (msg_role m = System \<or> msg_role m = User \<or> msg_role m = Assistant) \<and>
   to_wire_message \<lparr>msg_role = r, msg_content = c, msg_name = n\<rparr> =
     \<lparr>wm_role = r, wm_content = c, wm_name = n\<rparr>"
proof -
  have "msg_role m = System \<or> msg_role m = User \<or> msg_role m = Assistant"
    by (cases "msg_role m") simp_all
  then show ?thesis
    by (simp add: Role_UNIV [symmetric] Role_card to_wire_message_def)
qed

section \<open>Properties of the facade\<close>

text \<open>
  C5, as the claim states it, fails for the two streaming operations: called with options
  whose \<open>stream\<close> is absent, \<open>chatStream\<close> hands the adapter options whose \<open>stream\<close> is
  \<open>true\<close>, so its result differs from the adapter's on the caller's options.
\<close>

theorem chatStream_sets_stream_flag:
  "chatStream (AI_new probe_adapter) empty_chat_options = Some True \<and>
   chatCompletionStream probe_adapter empty_chat_options = None"
  by (simp add: chatStream_def AI_new_def probe_adapter_def empty_chat_options_def)

text \<open>
  C5, amended. For every adapter and all options, \<open>adapterName\<close>, \<open>chat\<close>,
  \<open>generateText\<close>, \<open>summarize\<close> and \<open>embed\<close> return what the bound adapter returns on the
  same options; \<open>chatStream\<close> and \<open>generateTextStream\<close> return what the bound adapter
  returns on a copy of the options whose \<open>stream\<close> is set to \<open>true\<close>, every other field
  unchanged. The bound adapter is the one given to the constructor or to the last
  \<open>setAdapter\<close>.
\<close>

theorem facade_delegates_streaming_sets_flag:
  "adapterName this = name (adapter this) \<and>
   chat this copts = chatCompletion (adapter this) copts \<and>
   chatStream this copts =
     chatCompletionStream (adapter this) (copts\<lparr>cco_stream := Some True\<rparr>) \<and>
   AI_generateText this topts = generateText (adapter this) topts \<and>
   AI_generateTextStream this topts =
     generateTextStream (adapter this) (topts\<lparr>tgo_stream := Some True\<rparr>) \<and>
   AI_summarize this sopts = summarize (adapter this) sopts \<and>
   embed this eopts = createEmbeddings (adapter this) eopts \<and>
   adapter (AI_new a) = a \<and> adapter (setAdapter this a) = a"
  by (simp add: adapterName_def chat_def chatStream_def AI_generateText_def
      AI_generateTextStream_def AI_summarize_def embed_def AI_new_def setAdapter_def)

section \<open>Properties of the message translation and of the structured output\<close>

text \<open>
  C8. With a parser that reads the arguments of the tool call as the object
  \<open>{location: "Berlin"}\<close>, the conversation of a user question, an assistant turn
  \<open>Checking\<close> with the tool call \<open>lookup_weather\<close>, and the tool's result
  \<open>{"temp":72}\<close> for that call is translated into exactly three turns: the user's text;
  an assistant turn made of a text block followed by one tool-invocation block that carries
  the parsed argument object; and a turn whose sole block is a tool result tagged with the
  id of the tool call.
\<close>

theorem forecast_conversation_translates_to_three_turns:
  assumes "parse ''{\"location\":\"Berlin\"}'' =
             Some (JObject [(''location'', JString ''Berlin'')])"
  shows "translate_messages parse forecast_conversation =
     Some [\<lparr>turn_role = UserRole, turn_content = Scalar ''What is the forecast?''\<rparr>,
           \<lparr>turn_role = AssistantRole,
            turn_content = Blocks [TextBlock ''Checking'',
                                   ToolUseBlock ''call_weather'' ''lookup_weather''
                                     (JObject [(''location'', JString ''Berlin'')])]\<rparr>,
           \<lparr>turn_role = UserRole,
            turn_content =
              Blocks [ToolResultBlock (Some ''call_weather'') ''{\"temp\":72}'']\<rparr>]"
  using assms
  by (simp add: translate_messages_def translate_message_def forecast_conversation_def
      tool_use_block_def)

theorem forecast_conversation_translates_to_three_turns_witness:
  "json_parse ''{\"location\":\"Berlin\"}'' =
     Some (JObject [(''location'', JString ''Berlin'')]) \<and>
   map_option length (translate_messages json_parse forecast_conversation) = Some 3"
proof -
  have h: "json_parse ''{\"location\":\"Berlin\"}'' =
             Some (JObject [(''location'', JString ''Berlin'')])"
    by code_simp
  from forecast_conversation_translates_to_three_turns[of json_parse, OF h] h
  show ?thesis by simp
qed

text \<open>
  C6. In the schema-constrained mode, when the provider answers and the text of the
  response does not parse as JSON, the extractor ends with \<open>StructuredOutputParseError\<close>
  carrying that text: the caller gets the error, not a result (so no \<open>null\<close> data), and
  exactly one request was issued (no retry).
\<close>

theorem schema_mode_unparsable_text_fails:
  assumes "supports_schema (soo_model options)"
    and "send (schema_request options) = Inr response"
    and "List.map_filter block_text (pr_content response) = [t]"
    and "parse t = None"
  shows "structuredOutput supports_schema parse stringify send options =
           ([schema_request options], Inl (StructuredOutputParseError t))"
  using assms by (simp add: structuredOutput_def Let_def)

theorem schema_mode_unparsable_text_fails_witness:
  "structuredOutput demo_supports_schema json_parse json_stringify
     (\<lambda>request. Inr \<lparr>pr_content = [TextBlock ''not valid json'']\<rparr>)
     (person_options ''claude-sonnet-4'') =
   ([schema_request (person_options ''claude-sonnet-4'')],
    Inl (StructuredOutputParseError ''not valid json''))"
proof -
  have h1: "demo_supports_schema (soo_model (person_options ''claude-sonnet-4''))"
    by (simp add: demo_supports_schema_def person_options_def)
  have h3: "List.map_filter block_text
              (pr_content \<lparr>pr_content = [TextBlock ''not valid json'']\<rparr>) =
            [''not valid json'']"
    by (simp add: List.map_filter_simps)
  have h4: "json_parse ''not valid json'' = None"
    by code_simp
  show ?thesis
    by (rule schema_mode_unparsable_text_fails
          [where supports_schema = demo_supports_schema and parse = json_parse
             and options = "person_options ''claude-sonnet-4''"
             and response = "\<lparr>pr_content = [TextBlock ''not valid json'']\<rparr>"
             and t = "''not valid json''", OF h1 _ h3 h4]) simp
qed

text \<open>
  C7. In the tool-use fallback, when the provider answers with a response whose sole
  content block is a tool invocation named \<open>structured_output\<close>, the extractor returns
  the structured input of that block as \<open>data\<close> and its serialization as \<open>rawText\<close>,
  after one request. The parser plays no part: the outcome is the same with a parser that
  reads nothing.
\<close>

theorem tool_fallback_returns_structured_input:
  assumes "\<not> supports_schema (soo_model options)"
    and "send (tool_request options) = Inr response"
    and "pr_content response = [ToolUseBlock tool_id ''structured_output'' v]"
  shows "structuredOutput supports_schema parse stringify send options =
           ([tool_request options], Inr \<lparr>sor_data = v, sor_rawText = stringify v\<rparr>) \<and>
         structuredOutput supports_schema parse stringify send options =
           structuredOutput supports_schema (\<lambda>text. None) stringify send options"
  using assms by (simp add: structuredOutput_def Let_def)

theorem tool_fallback_returns_structured_input_witness:
  "structuredOutput demo_supports_schema json_parse json_stringify
     (\<lambda>request. Inr \<lparr>pr_content =
        [ToolUseBlock ''toolu_123'' ''structured_output''
           (JObject [(''name'', JString ''Bob''), (''age'', JNumber 25)])]\<rparr>)
     (person_options ''claude-3-7-sonnet'') =
   ([tool_request (person_options ''claude-3-7-sonnet'')],
    Inr \<lparr>sor_data = JObject [(''name'', JString ''Bob''), (''age'', JNumber 25)],
         sor_rawText = ''{\"name\":\"Bob\",\"age\":25}''\<rparr>)"
proof -
  have h1: "\<not> demo_supports_schema (soo_model (person_options ''claude-3-7-sonnet''))"
    by (simp add: demo_supports_schema_def person_options_def)
  have s: "json_stringify (JObject [(''name'', JString ''Bob''), (''age'', JNumber 25)]) =
             ''{\"name\":\"Bob\",\"age\":25}''"
    by code_simp
  have "structuredOutput demo_supports_schema json_parse json_stringify
     (\<lambda>request. Inr \<lparr>pr_content =
        [ToolUseBlock ''toolu_123'' ''structured_output''
           (JObject [(''name'', JString ''Bob''), (''age'', JNumber 25)])]\<rparr>)
     (person_options ''claude-3-7-sonnet'') =
   ([tool_request (person_options ''claude-3-7-sonnet'')],
    Inr \<lparr>sor_data = JObject [(''name'', JString ''Bob''), (''age'', JNumber 25)],
         sor_rawText =
           json_stringify (JObject [(''name'', JString ''Bob''), (''age'', JNumber 25)])\<rparr>)"
    using tool_fallback_returns_structured_input
          [where supports_schema = demo_supports_schema
             and options = "person_options ''claude-3-7-sonnet''"
             and response = "\<lparr>pr_content =
               [ToolUseBlock ''toolu_123'' ''structured_output''
                  (JObject [(''name'', JString ''Bob''), (''age'', JNumber 25)])]\<rparr>"
             and tool_id = "''toolu_123''"
             and v = "JObject [(''name'', JString ''Bob''), (''age'', JNumber 25)]"
             and parse = json_parse and stringify = json_stringify, OF h1]
    by simp
  then show ?thesis unfolding s .
qed

end
